theory Spec2Isabelle
  imports Complex_Main "HOL-Library.Sublist"
begin

section \<open>Prodblock: the browser extension's relay and enforcer\<close>

text \<open>
  The development embeds the two scripts of the browser extension:
  \<^item> the content script (the Enforcer): \<open>isAllowed\<close>, \<open>getOverlay\<close>, \<open>createOverlay\<close>,
    \<open>removeOverlay\<close>, \<open>setupMutationObserver\<close>, \<open>handleState\<close> and the message listener;
  \<^item> the service worker (the Relay): \<open>connect\<close>, the socket handlers, \<open>scheduleReconnect\<close>,
    \<open>broadcastState\<close> and the \<open>GET_STATE\<close> listener.

  The scripts are event driven. Every handler is a function from the script's variables
  (and the part of the platform it touches) to their new values; what the platform decides
  (what a socket delivers, whether a constructor throws, which tabs exist, what the hosting
  page does to its document) is an argument of the handler or an event of the step function.
\<close>

subsection \<open>JavaScript values\<close>

text \<open>
  The values that travel through the scripts are what \<open>JSON.parse\<close> and the extension's
  message channel produce, plus \<open>undefined\<close> for a property that is not there.  A finite
  number is a rational (negative zero is identified with zero: both are falsy). An object is
  its list of own properties; only look-ups are made on it.
\<close>

datatype jsval =
    JUndefined
  | JNull
  | JBool bool
  | JNum rat
  | JStr string
  | JArr "jsval list"
  | JObj "(string \<times> jsval) list"

datatype js_error = TypeError

text \<open>Truthiness, as tested by \<open>!v\<close>, \<open>v || w\<close> and \<open>if (v)\<close>.\<close>

fun truthy :: "jsval \<Rightarrow> bool" where
  "truthy JUndefined = False"
| "truthy JNull = False"
| "truthy (JBool b) = b"
| "truthy (JNum r) = (r \<noteq> 0)"
| "truthy (JStr s) = (s \<noteq> [])"
| "truthy (JArr xs) = True"
| "truthy (JObj kvs) = True"

text \<open>
  Reading a property \<open>v.k\<close>. The names the scripts read from a message (\<open>type\<close>,
  \<open>lockActive\<close>, \<open>allowedDomains\<close>) are defined by no prototype, so a primitive or an array
  gives \<open>undefined\<close>; \<open>null\<close> and \<open>undefined\<close> throw.
\<close>

fun get_prop :: "jsval \<Rightarrow> string \<Rightarrow> js_error + jsval" where
  "get_prop JUndefined k = Inl TypeError"
| "get_prop JNull k = Inl TypeError"
| "get_prop (JObj kvs) k = Inr (case map_of kvs k of None \<Rightarrow> JUndefined | Some v \<Rightarrow> v)"
| "get_prop v k = Inr JUndefined"

subsection \<open>Strings\<close>

text \<open>
  A \<^typ>\<open>char\<close> is a code unit below 256. \<open>toLowerCase\<close> maps the upper-case letters of
  that range (A to Z, and U+00C0 to U+00DE without the multiplication sign U+00D7) to the
  letter 32 places further; \<open>trim\<close> removes the white space and line terminators of that
  range (U+0009 to U+000D, the space and the no-break space U+00A0) from both ends.
\<close>

definition lower_char :: "char \<Rightarrow> char" where
  "lower_char c =
     (let n = (of_char c :: nat)
      in if (65 \<le> n \<and> n \<le> 90) \<or> (192 \<le> n \<and> n \<le> 222 \<and> n \<noteq> 215)
         then char_of (n + 32) else c)"

definition toLowerCase :: "string \<Rightarrow> string" where
  "toLowerCase s = map lower_char s"

definition is_space :: "char \<Rightarrow> bool" where
  "is_space c = (let n = (of_char c :: nat) in (9 \<le> n \<and> n \<le> 13) \<or> n = 32 \<or> n = 160)"

definition trim :: "string \<Rightarrow> string" where
  "trim s = rev (dropWhile is_space (rev (dropWhile is_space s)))"

text \<open>\<open>s.endsWith(t)\<close>: the last \<open>t.length\<close> code units of \<open>s\<close> are \<open>t\<close>.\<close>

definition endsWith :: "string \<Rightarrow> string \<Rightarrow> bool" where
  "endsWith s t = (length t \<le> length s \<and> drop (length s - length t) s = t)"

text \<open>\<open>hostname.replace(/^www\./, "")\<close>: the four code units \<open>www.\<close> at the start are dropped.\<close>

definition strip_www :: "string \<Rightarrow> string" where
  "strip_www h = (if take 4 h = ''www.'' then drop 4 h else h)"

subsection \<open>The Enforcer: exemption matching\<close>

text \<open>
  The callback of \<open>allowedDomains.some\<close>, for the normalised host. \<open>(d || "")\<close> replaces a
  falsy entry by the empty string; \<open>.trim()\<close> exists on strings only, so a truthy entry that
  is no string throws.
\<close>

fun domain_matches :: "string \<Rightarrow> jsval \<Rightarrow> js_error + bool" where
  "domain_matches host (JStr d) =
     (let domain = toLowerCase (trim d)
      in if domain = [] then Inr False
         else Inr (host = domain \<or> endsWith host (''.'' @ domain)))"
| "domain_matches host d = (if truthy d then Inl TypeError else Inr False)"

text \<open>\<open>Array.prototype.some\<close>: in order, stopping at the first true; a throw ends it.\<close>

fun some :: "(jsval \<Rightarrow> js_error + bool) \<Rightarrow> jsval list \<Rightarrow> js_error + bool" where
  "some f [] = Inr False"
| "some f (x # xs) =
     (case f x of
        Inl e \<Rightarrow> Inl e
      | Inr b \<Rightarrow> if b then Inr True else some f xs)"

text \<open>
  \<open>isAllowed(hostname, allowedDomains)\<close>. A falsy list, or one whose \<open>length\<close> is 0, exempts
  nothing. Only an array has \<open>some\<close>: any other truthy value throws there, unless it is an
  object whose own \<open>length\<close> is 0, which returns false at the first test.
\<close>

fun isAllowed :: "string \<Rightarrow> jsval \<Rightarrow> js_error + bool" where
  "isAllowed hostname (JArr ds) =
     (if length ds = 0 then Inr False
      else some (domain_matches (toLowerCase (strip_www hostname))) ds)"
| "isAllowed hostname (JObj kvs) =
     (if map_of kvs ''length'' = Some (JNum 0) then Inr False else Inl TypeError)"
| "isAllowed hostname v = (if truthy v then Inl TypeError else Inr False)"

text \<open>
  The exemption test as the specification words it for one domain: strip a leading
  \<open>www.\<close> from the host name and lower-case it, trim and lower-case the domain, then
  compare for equality or for a suffix after a dot.
\<close>

definition spec_isExempt :: "string \<Rightarrow> string \<Rightarrow> bool" where
  "spec_isExempt h d =
     (let host = toLowerCase (strip_www h); domain = toLowerCase (trim d)
      in host = domain \<or> suffix (''.'' @ domain) host)"

subsection \<open>The Enforcer: the document and its overlay\<close>

text \<open>
  The document is the forest of elements below its root element, in tree order; an element
  is its \<open>id\<close> (empty when it has none) and its children. The document always has a root
  element, which is not the overlay; the page may put another element in its place. A
  document without root element is not modelled.
\<close>

datatype element = Element (elem_id: string) (children: "element list")

definition OVERLAY_ID :: string where
  "OVERLAY_ID = ''prodblock-overlay''"

text \<open>\<open>document.getElementById\<close>: the first element in tree order that has the id.\<close>

fun find_element :: "string \<Rightarrow> element \<Rightarrow> element option"
  and getElementById :: "string \<Rightarrow> element list \<Rightarrow> element option" where
  "find_element i (Element j cs) = (if j = i then Some (Element j cs) else getElementById i cs)"
| "getElementById i [] = None"
| "getElementById i (e # es) =
     (case find_element i e of Some x \<Rightarrow> Some x | None \<Rightarrow> getElementById i es)"

text \<open>
  \<open>node.remove()\<close> for the node that \<open>getElementById\<close> returns: the first element in tree
  order with the id leaves its parent, with everything below it.
\<close>

fun remove_element :: "string \<Rightarrow> element list \<Rightarrow> element list" where
  "remove_element i [] = []"
| "remove_element i (Element j cs # es) =
     (if j = i then es
      else case getElementById i cs of
             Some x \<Rightarrow> Element j (remove_element i cs) # es
           | None \<Rightarrow> Element j cs # remove_element i es)"

text \<open>The number of elements of the document that carry a given id.\<close>

fun count_element :: "string \<Rightarrow> element \<Rightarrow> nat"
  and count_elements :: "string \<Rightarrow> element list \<Rightarrow> nat" where
  "count_element i (Element j cs) = (if j = i then 1 else 0) + count_elements i cs"
| "count_elements i [] = 0"
| "count_elements i (e # es) = count_element i e + count_elements i es"

definition getOverlay :: "element list \<Rightarrow> element option" where
  "getOverlay doc = getElementById OVERLAY_ID doc"

text \<open>
  \<open>createOverlay\<close>: nothing when \<open>getOverlay()\<close> finds an element; otherwise a new \<open>div\<close>
  with the id (its content lives in a closed shadow root, so it has no children in the
  document) becomes the last child of the root element.
\<close>

definition createOverlay :: "element list \<Rightarrow> element list" where
  "createOverlay doc =
     (case getOverlay doc of
        Some overlay \<Rightarrow> doc
      | None \<Rightarrow> doc @ [Element OVERLAY_ID []])"

definition removeOverlay :: "element list \<Rightarrow> element list" where
  "removeOverlay doc =
     (case getOverlay doc of
        Some overlay \<Rightarrow> remove_element OVERLAY_ID doc
      | None \<Rightarrow> doc)"

subsection \<open>The Enforcer: state handling\<close>

text \<open>The variables of the content script, and the document it acts on.\<close>

record enforcer =
  document :: "element list"
  shouldBeBlocked :: bool
  mutationObserverActive :: bool

text \<open>
  \<open>setupMutationObserver\<close>: the flag records that the observer is installed; a second call
  returns at once.
\<close>

definition setupMutationObserver :: "enforcer \<Rightarrow> enforcer" where
  "setupMutationObserver st =
     (if mutationObserverActive st then st else st\<lparr>mutationObserverActive := True\<rparr>)"

text \<open>The callback handed to \<open>MutationObserver\<close>.\<close>

definition observer_callback :: "enforcer \<Rightarrow> enforcer" where
  "observer_callback st =
     (if shouldBeBlocked st \<and> getOverlay (document st) = None
      then st\<lparr>document := createOverlay (document st)\<rparr>
      else st)"

text \<open>
  \<open>handleState(newState)\<close> in a context whose \<open>window.location.hostname || ""\<close> is
  \<open>hostname\<close>. Both throwing places (reading \<open>lockActive\<close> from \<open>null\<close>, and \<open>isAllowed\<close>)
  come before the first assignment, so a throw leaves every variable as it was: \<open>Inl\<close>
  carries no state.
\<close>

definition handleState :: "string \<Rightarrow> jsval \<Rightarrow> enforcer \<Rightarrow> js_error + enforcer" where
  "handleState hostname newState st =
     (case get_prop newState ''lockActive'' of
        Inl e \<Rightarrow> Inl e
      | Inr lockActive \<Rightarrow>
          if \<not> truthy lockActive
          then Inr (st\<lparr>shouldBeBlocked := False, document := removeOverlay (document st)\<rparr>)
          else
            (case get_prop newState ''allowedDomains'' of
               Inl e \<Rightarrow> Inl e
             | Inr allowedDomains \<Rightarrow>
                 (case isAllowed hostname (if truthy allowedDomains then allowedDomains else JArr []) of
                    Inl e \<Rightarrow> Inl e
                  | Inr allowed \<Rightarrow>
                      if allowed
                      then Inr (st\<lparr>shouldBeBlocked := False,
                                   document := removeOverlay (document st)\<rparr>)
                      else Inr (setupMutationObserver
                                 (st\<lparr>shouldBeBlocked := True,
                                     document := createOverlay (document st)\<rparr>)))))"

text \<open>
  Two forests have the same shape when they differ in the ids of their elements only: that
  is what a change of attributes leaves of a document.
\<close>

fun same_shape :: "element \<Rightarrow> element \<Rightarrow> bool"
  and same_shapes :: "element list \<Rightarrow> element list \<Rightarrow> bool" where
  "same_shape (Element i cs) (Element j ds) = same_shapes cs ds"
| "same_shapes [] [] = True"
| "same_shapes (c # cs) (d # ds) = (same_shape c d \<and> same_shapes cs ds)"
| "same_shapes [] (d # ds) = False"
| "same_shapes (c # cs) [] = False"

text \<open>
  A browsing context: the variables of its content script with the document, and what the
  platform knows of the observer, namely whether the element it was installed on is the
  root element of the document now. \<open>observer.observe(document.documentElement, ...)\<close>
  takes the root element of that moment, and the flag \<open>mutationObserverActive\<close> keeps the
  script from ever installing the observer again.
\<close>

record frame =
  script :: enforcer
  rootObserved :: bool

text \<open>
  The events of one context. A message from the service worker is handled when its \<open>type\<close>
  is \<open>"STATE"\<close>. The answer to \<open>GET_STATE\<close> is handled unless the channel reported an error
  or the answer is falsy (then the request is repeated a second later, which changes no
  variable). The hosting page acts on the document in four ways:
  \<^item> it inserts and removes nodes below the root element, which may leave any forest in
    place of the document;
  \<^item> it changes attributes, which leaves a forest of the same shape with other ids;
  \<^item> it puts a new root element in place of the root element, with any forest below it;
  \<^item> it inserts and removes nodes below a former root element, which is no longer in the
    document.
\<close>

datatype enforcer_event =
    Message jsval
  | Response bool jsval
  | PageMutation "element list"
  | PageRelabel "element list"
  | RootReplaced "element list"
  | FormerRootMutation

text \<open>
  The observer is installed with \<open>childList\<close> and \<open>subtree\<close>: its callback runs after nodes
  were inserted or removed below the element it was installed on, and neither after a
  change of attributes nor after a change of the document's own children (the replacement
  of the root element). A handler of the script changes the document by \<open>createOverlay\<close>
  and \<open>removeOverlay\<close> only, which insert or remove a node below the present root element
  exactly when they change the forest; the handler that installs the observer has made its
  own change before.
\<close>

definition run_observer :: "bool \<Rightarrow> enforcer \<Rightarrow> enforcer \<Rightarrow> enforcer" where
  "run_observer observed old st =
     (if observed \<and> mutationObserverActive old \<and> document st \<noteq> document old
      then observer_callback st else st)"

text \<open>
  A state handed to \<open>handleState\<close> by one of the two listeners. A throw leaves the context as
  it was. When the call installs the observer, it installs it on the present root element.
\<close>

definition deliver :: "string \<Rightarrow> jsval \<Rightarrow> frame \<Rightarrow> frame" where
  "deliver hostname newState c =
     (case handleState hostname newState (script c) of
        Inl e \<Rightarrow> c
      | Inr st \<Rightarrow>
          \<lparr>script = run_observer (rootObserved c) (script c) st,
           rootObserved =
             (rootObserved c \<or>
              (\<not> mutationObserverActive (script c) \<and> mutationObserverActive st))\<rparr>)"

fun enforcer_step :: "string \<Rightarrow> enforcer_event \<Rightarrow> frame \<Rightarrow> frame" where
  "enforcer_step hostname (Message msg) c =
     (if get_prop msg ''type'' = Inr (JStr ''STATE'') then deliver hostname msg c else c)"
| "enforcer_step hostname (Response lastError response) c =
     (if lastError \<or> \<not> truthy response then c else deliver hostname response c)"
| "enforcer_step hostname (PageMutation doc) c =
     (if rootObserved c \<and> mutationObserverActive (script c)
      then c\<lparr>script := observer_callback ((script c)\<lparr>document := doc\<rparr>)\<rparr>
      else c\<lparr>script := (script c)\<lparr>document := doc\<rparr>\<rparr>)"
| "enforcer_step hostname (PageRelabel doc) c =
     (if same_shapes (document (script c)) doc
      then c\<lparr>script := (script c)\<lparr>document := doc\<rparr>\<rparr>
      else c)"
| "enforcer_step hostname (RootReplaced doc) c =
     c\<lparr>script := (script c)\<lparr>document := doc\<rparr>, rootObserved := False\<rparr>"
| "enforcer_step hostname FormerRootMutation c =
     (if mutationObserverActive (script c) \<and> \<not> rootObserved c
      then c\<lparr>script := observer_callback (script c)\<rparr>
      else c)"

definition enforcer_init :: "element list \<Rightarrow> enforcer" where
  "enforcer_init doc =
     \<lparr>document = doc, shouldBeBlocked = False, mutationObserverActive = False\<rparr>"



subsection \<open>The Relay: variables, platform and handlers\<close>

text \<open>
  The service worker's variables are \<open>ws\<close>, \<open>state\<close> and \<open>reconnectTimeout\<close>. Of the
  platform the model keeps what the handlers act on: the sockets created and not yet closed,
  the timers set and neither fired nor cleared, the number of \<open>chrome.tabs.query\<close> calls
  whose callback has not run, and the trace of the calls made. Sockets and timers are named
  by positive numbers, as \<open>setTimeout\<close> returns them.
\<close>

datatype effect =
    NewWebSocket nat
  | SetTimeout nat
  | ClearTimeout nat
  | TabsQuery
  | SendMessage int jsval

record relay =
  ws :: "nat option"
  state :: jsval
  reconnectTimeout :: "nat option"
  sockets :: "nat list"
  timers :: "nat list"
  queries :: nat
  next_id :: nat
  effects :: "effect list"

definition safe_default :: jsval where
  "safe_default = JObj [(''lockActive'', JBool False), (''allowedDomains'', JArr [])]"

definition relay_init :: relay where
  "relay_init =
     \<lparr>ws = None, state = safe_default, reconnectTimeout = None,
      sockets = [], timers = [], queries = 0, next_id = 0, effects = []\<rparr>"

text \<open>\<open>if (reconnectTimeout)\<close>: \<open>null\<close> is falsy, a timer id is truthy unless it is 0.\<close>

definition timer_truthy :: "nat option \<Rightarrow> bool" where
  "timer_truthy r = (case r of None \<Rightarrow> False | Some t \<Rightarrow> t \<noteq> 0)"

text \<open>\<open>broadcastState\<close> asks for the tabs; the messages are sent when the answer comes.\<close>

definition broadcastState :: "relay \<Rightarrow> relay" where
  "broadcastState st = st\<lparr>queries := Suc (queries st), effects := effects st @ [TabsQuery]\<rparr>"

definition scheduleReconnect :: "relay \<Rightarrow> relay" where
  "scheduleReconnect st =
     (if \<not> timer_truthy (reconnectTimeout st)
      then (let t = Suc (next_id st)
            in st\<lparr>reconnectTimeout := Some t, timers := timers st @ [t], next_id := t,
                  effects := effects st @ [SetTimeout t]\<rparr>)
      else st)"

text \<open>
  \<open>connect\<close>; the argument tells whether \<open>new WebSocket\<close> throws. The handlers are the same
  closures for every socket, so a socket is only its name.
\<close>

definition connect :: "bool \<Rightarrow> relay \<Rightarrow> relay" where
  "connect throws st =
     (let st1 = (case reconnectTimeout st of
                   None \<Rightarrow> st
                 | Some t \<Rightarrow>
                     if t \<noteq> 0
                     then st\<lparr>timers := removeAll t (timers st), reconnectTimeout := None,
                             effects := effects st @ [ClearTimeout t]\<rparr>
                     else st)
      in if throws then scheduleReconnect st1
         else (let s = Suc (next_id st1)
               in st1\<lparr>ws := Some s, sockets := sockets st1 @ [s], next_id := s,
                      effects := effects st1 @ [NewWebSocket s]\<rparr>))"

text \<open>What \<open>JSON.parse(event.data)\<close> does with the text of a message.\<close>

datatype parse_outcome = SyntaxError | Parsed jsval

definition ws_onmessage :: "parse_outcome \<Rightarrow> relay \<Rightarrow> relay" where
  "ws_onmessage outcome st =
     (case outcome of
        SyntaxError \<Rightarrow> st
      | Parsed newState \<Rightarrow> broadcastState (st\<lparr>state := newState\<rparr>))"

definition ws_onclose :: "relay \<Rightarrow> relay" where
  "ws_onclose st = scheduleReconnect (broadcastState (st\<lparr>state := safe_default\<rparr>))"

text \<open>The callback of the reconnect timer.\<close>

definition reconnect_callback :: "bool \<Rightarrow> relay \<Rightarrow> relay" where
  "reconnect_callback throws st = connect throws (st\<lparr>reconnectTimeout := None\<rparr>)"

text \<open>
  The decimal name of an array index, and the own enumerable properties that
  \<open>...state\<close> copies: those of an object, the indexed entries of an array or a string,
  nothing for any other value.
\<close>

function decimal :: "nat \<Rightarrow> string" where
  "decimal n =
     (if n < 10 then [char_of (48 + n)]
      else decimal (n div 10) @ [char_of (48 + n mod 10)])"
  by pat_completeness auto
termination
  by (relation "measure id") auto

fun own_props :: "jsval \<Rightarrow> (string \<times> jsval) list" where
  "own_props (JObj kvs) = kvs"
| "own_props (JArr xs) = zip (map decimal [0..<length xs]) xs"
| "own_props (JStr s) = zip (map decimal [0..<length s]) (map (\<lambda>c. JStr [c]) s)"
| "own_props v = []"

text \<open>
  \<open>{ type: "STATE", ...state }\<close>: the copied properties come after \<open>type\<close>, so a
  \<open>type\<close> among them replaces \<open>"STATE"\<close>.
\<close>

definition broadcast_message :: "jsval \<Rightarrow> jsval" where
  "broadcast_message v =
     JObj (if map_of (own_props v) ''type'' = None
           then (''type'', JStr ''STATE'') # own_props v
           else own_props v)"

text \<open>
  The callback of \<open>chrome.tabs.query\<close>: one message to every tab whose \<open>id\<close> is truthy,
  built from the state cached at that moment. A rejected send is caught and ignored.
\<close>

fun send_to_tabs :: "jsval \<Rightarrow> int option list \<Rightarrow> effect list" where
  "send_to_tabs msg [] = []"
| "send_to_tabs msg (None # tabs) = send_to_tabs msg tabs"
| "send_to_tabs msg (Some i # tabs) =
     (if i \<noteq> 0 then SendMessage i msg # send_to_tabs msg tabs else send_to_tabs msg tabs)"

definition tabs_callback :: "int option list \<Rightarrow> relay \<Rightarrow> relay" where
  "tabs_callback tabs st =
     st\<lparr>effects := effects st @ send_to_tabs (broadcast_message (state st)) tabs\<rparr>"

text \<open>The listener for \<open>GET_STATE\<close> answers with the cached state.\<close>

definition get_state :: "relay \<Rightarrow> jsval" where
  "get_state st = state st"

subsection \<open>The Relay: its runs\<close>

text \<open>
  The service worker starts with a call of \<open>connect\<close>. Afterwards the platform delivers
  events: a socket that is not closed opens, delivers a message, reports an error (the
  handler is empty; the close event follows) or closes; a pending timer fires; an
  outstanding tabs query answers. \<open>None\<close> means that the platform cannot deliver the event
  in that state.
\<close>

datatype relay_event =
    SocketOpen nat
  | SocketMessage nat parse_outcome
  | SocketError nat
  | SocketClose nat
  | TimerFires nat bool
  | TabsQueryDone "int option list"

definition relay_start :: "bool \<Rightarrow> relay" where
  "relay_start throws = connect throws relay_init"

fun relay_step :: "relay_event \<Rightarrow> relay \<Rightarrow> relay option" where
  "relay_step (SocketOpen s) st = (if s \<in> set (sockets st) then Some st else None)"
| "relay_step (SocketMessage s outcome) st =
     (if s \<in> set (sockets st) then Some (ws_onmessage outcome st) else None)"
| "relay_step (SocketError s) st = (if s \<in> set (sockets st) then Some st else None)"
| "relay_step (SocketClose s) st =
     (if s \<in> set (sockets st)
      then Some (ws_onclose (st\<lparr>sockets := removeAll s (sockets st)\<rparr>))
      else None)"
| "relay_step (TimerFires t throws) st =
     (if t \<in> set (timers st)
      then Some (reconnect_callback throws (st\<lparr>timers := removeAll t (timers st)\<rparr>))
      else None)"
| "relay_step (TabsQueryDone tabs) st =
     (if 0 < queries st
      then Some (tabs_callback tabs (st\<lparr>queries := queries st - 1\<rparr>))
      else None)"

fun relay_run :: "relay_event list \<Rightarrow> relay \<Rightarrow> relay option" where
  "relay_run [] st = Some st"
| "relay_run (ev # evs) st =
     (case relay_step ev st of None \<Rightarrow> None | Some st' \<Rightarrow> relay_run evs st')"

text \<open>
  The shape of a lock state: an object whose \<open>lockActive\<close> is a boolean and whose
  \<open>allowedDomains\<close> is an array of strings.
\<close>

fun is_JStr :: "jsval \<Rightarrow> bool" where
  "is_JStr (JStr s) = True"
| "is_JStr v = False"

fun is_LockState :: "jsval \<Rightarrow> bool" where
  "is_LockState (JObj kvs) =
     (case (map_of kvs ''lockActive'', map_of kvs ''allowedDomains'') of
        (Some (JBool b), Some (JArr ds)) \<Rightarrow> list_all is_JStr ds
      | _ \<Rightarrow> False)"
| "is_LockState v = False"

text \<open>
  What the relay keeps true: the variable \<open>reconnectTimeout\<close> names exactly the pending
  timers, a pending timer and a socket never exist together, there is at most one socket,
  and without a socket the cached state is the safe default.
\<close>

definition relay_inv :: "relay \<Rightarrow> bool" where
  "relay_inv st =
     (timers st = (case reconnectTimeout st of None \<Rightarrow> [] | Some t \<Rightarrow> [t]) \<and>
      0 \<notin> set (timers st) \<and>
      length (sockets st) + length (timers st) \<le> 1 \<and>
      (sockets st = [] \<longrightarrow> state st = safe_default))"

text \<open>The variable and the platform agree on the pending reconnect timers.\<close>

definition timers_tracked :: "relay \<Rightarrow> bool" where
  "timers_tracked st =
     (timers st = (case reconnectTimeout st of None \<Rightarrow> [] | Some t \<Rightarrow> [t]) \<and>
      0 \<notin> set (timers st))"

section \<open>Properties\<close>

subsection \<open>The document\<close>

lemma getElementById_append:
  "getElementById i (xs @ ys) =
     (case getElementById i xs of Some x \<Rightarrow> Some x | None \<Rightarrow> getElementById i ys)"
  by (induction xs) (auto split: option.splits)

lemma count_elements_append:
  "count_elements i (xs @ ys) = count_elements i xs + count_elements i ys"
  by (induction xs) auto

lemma find_element_count:
  "(find_element i e = None) = (count_element i e = 0)"
  "(getElementById i es = None) = (count_elements i es = 0)"
  by (induction i e and i es rule: find_element_getElementById.induct)
     (auto split: option.splits)

lemma found_has_id:
  "find_element i e = Some x \<Longrightarrow> elem_id x = i"
  "getElementById i es = Some x \<Longrightarrow> elem_id x = i"
  by (induction i e and i es rule: find_element_getElementById.induct)
     (auto split: option.splits if_splits)

lemma found_counts:
  "find_element i e = Some x \<Longrightarrow> 0 < count_element i x"
  "getElementById i es = Some x \<Longrightarrow> 0 < count_element i x"
  by (induction i e and i es rule: find_element_getElementById.induct)
     (auto split: option.splits if_splits)

lemma getOverlay_createOverlay: "getOverlay (createOverlay doc) \<noteq> None"
  by (auto simp: createOverlay_def getOverlay_def getElementById_append split: option.splits)

lemma createOverlay_again: "createOverlay (createOverlay doc) = createOverlay doc"
  using getOverlay_createOverlay [of doc]
  by (cases "getOverlay (createOverlay doc)") (auto simp: createOverlay_def [of "createOverlay doc"])

lemma absent_count:
  "getElementById i es = None \<Longrightarrow> count_elements i es = 0"
  by (simp add: find_element_count(2))

lemma count_createOverlay:
  "count_elements OVERLAY_ID (createOverlay doc) =
     (if getOverlay doc = None then 1 else count_elements OVERLAY_ID doc)"
  by (auto simp: createOverlay_def getOverlay_def count_elements_append absent_count
      split: option.splits)

lemma remove_element_absent:
  "getElementById i es = None \<Longrightarrow> remove_element i es = es"
  by (induction i es rule: remove_element.induct) (auto split: option.splits if_splits)

lemma remove_element_appended:
  "getElementById i es = None \<Longrightarrow> remove_element i (es @ [Element i []]) = es"
  by (induction i es rule: remove_element.induct) (auto split: option.splits if_splits)

lemma count_remove_element:
  "getElementById i es = Some x \<Longrightarrow>
     count_elements i (remove_element i es) + count_element i x = count_elements i es"
  by (induction i es rule: remove_element.induct)
     (auto split: option.splits if_splits simp: absent_count)

lemma removeOverlay_createOverlay:
  "getOverlay doc = None \<Longrightarrow> removeOverlay (createOverlay doc) = doc"
  by (simp add: removeOverlay_def createOverlay_def getOverlay_def getElementById_append
      remove_element_appended)

lemma getOverlay_removeOverlay:
  assumes "count_elements OVERLAY_ID doc \<le> 1"
  shows "getOverlay (removeOverlay doc) = None"
proof (cases "getOverlay doc")
  case None
  then show ?thesis by (simp add: removeOverlay_def)
next
  case (Some x)
  then have f: "getElementById OVERLAY_ID doc = Some x" by (simp add: getOverlay_def)
  from count_remove_element [OF f] found_counts(2) [OF f] assms
  have "count_elements OVERLAY_ID (remove_element OVERLAY_ID doc) = 0" by arith
  then show ?thesis using Some
    by (simp add: removeOverlay_def getOverlay_def find_element_count(2))
qed

subsection \<open>The Enforcer\<close>

lemma getOverlay_createOverlay_Some: "\<exists>y. getOverlay (createOverlay doc) = Some y"
  using getOverlay_createOverlay [of doc] by auto

lemma setupMutationObserver_eq:
  "setupMutationObserver st = st\<lparr>mutationObserverActive := True\<rparr>"
  by (simp add: setupMutationObserver_def)

lemma handleState_unlocked:
  assumes "get_prop newState ''lockActive'' = Inr lockActive" and "\<not> truthy lockActive"
  shows "handleState hostname newState st =
           Inr (st\<lparr>shouldBeBlocked := False, document := removeOverlay (document st)\<rparr>)"
  using assms by (simp add: handleState_def)

lemma handleState_full_focus:
  assumes "get_prop newState ''lockActive'' = Inr lockActive" and "truthy lockActive"
    and "get_prop newState ''allowedDomains'' = Inr allowedDomains"
    and "\<not> truthy allowedDomains \<or> allowedDomains = JArr []"
  shows "handleState hostname newState st =
           Inr (st\<lparr>shouldBeBlocked := True, document := createOverlay (document st),
                   mutationObserverActive := True\<rparr>)"
  using assms by (auto simp: handleState_def setupMutationObserver_eq)

lemma observer_callback_again:
  "observer_callback (observer_callback st) = observer_callback st"
  by (simp add: observer_callback_def getOverlay_createOverlay)





subsection \<open>The Enforcer: claims\<close>

text \<open>
  C8. Creating the overlay is idempotent: a second \<open>createOverlay\<close> with no removal in
  between changes nothing, because \<open>getOverlay\<close> finds the element by \<open>OVERLAY_ID\<close>; after
  the two calls the overlay is present, and a document that held at most one element with
  that id before (ids are unique in a document) holds exactly one.
\<close>

theorem createOverlay_idempotent:
  "createOverlay (createOverlay doc) = createOverlay doc \<and>
   getOverlay (createOverlay doc) \<noteq> None \<and>
   (count_elements OVERLAY_ID doc \<le> 1 \<longrightarrow>
      count_elements OVERLAY_ID (createOverlay (createOverlay doc)) = 1)"
proof (intro conjI impI)
  show "createOverlay (createOverlay doc) = createOverlay doc"
    by (rule createOverlay_again)
  show "getOverlay (createOverlay doc) \<noteq> None"
    by (rule getOverlay_createOverlay)
  assume few: "count_elements OVERLAY_ID doc \<le> 1"
  show "count_elements OVERLAY_ID (createOverlay (createOverlay doc)) = 1"
  proof (cases "getOverlay doc")
    case None
    then show ?thesis by (simp add: createOverlay_again count_createOverlay)
  next
    case (Some x)
    then have "0 < count_elements OVERLAY_ID doc"
      using find_element_count(2) [of OVERLAY_ID doc] by (simp add: getOverlay_def)
    with few Some show ?thesis by (simp add: createOverlay_again count_createOverlay)
  qed
qed

theorem createOverlay_idempotent_witness:
  "count_elements OVERLAY_ID [Element ''main'' [Element ''nav'' []]] \<le> 1 \<and>
   createOverlay (createOverlay [Element ''main'' [Element ''nav'' []]]) =
     [Element ''main'' [Element ''nav'' []], Element ''prodblock-overlay'' []] \<and>
   count_elements OVERLAY_ID (createOverlay (createOverlay [Element ''main'' [Element ''nav'' []]])) = 1"
proof -
  have few: "count_elements OVERLAY_ID [Element ''main'' [Element ''nav'' []]] \<le> 1"
    by (simp add: OVERLAY_ID_def)
  have made: "createOverlay [Element ''main'' [Element ''nav'' []]] =
      [Element ''main'' [Element ''nav'' []], Element ''prodblock-overlay'' []]"
    by (simp add: createOverlay_def getOverlay_def OVERLAY_ID_def)
  from createOverlay_idempotent [of "[Element ''main'' [Element ''nav'' []]]"] few made
  show ?thesis by (simp add: OVERLAY_ID_def)
qed

text \<open>
  C5. Full focus: a state whose \<open>lockActive\<close> is true and whose \<open>allowedDomains\<close> is the
  empty list makes \<open>isAllowed\<close> return false for every host name, so \<open>handleState\<close> sets the
  target to Blocked, creates the overlay and installs the observer, in every context.
\<close>

theorem full_focus_blocks_every_host:
  assumes "get_prop newState ''lockActive'' = Inr (JBool True)"
    and "get_prop newState ''allowedDomains'' = Inr (JArr [])"
  shows "isAllowed hostname (JArr []) = Inr False \<and>
         handleState hostname newState st =
           Inr (st\<lparr>shouldBeBlocked := True, document := createOverlay (document st),
                   mutationObserverActive := True\<rparr>) \<and>
         getOverlay (createOverlay (document st)) \<noteq> None"
  using assms handleState_full_focus [of newState "JBool True" "JArr []" hostname st]
  by (simp add: getOverlay_createOverlay)

theorem full_focus_blocks_every_host_witness:
  "handleState ''mail.example.com''
     (JObj [(''type'', JStr ''STATE''), (''lockActive'', JBool True), (''allowedDomains'', JArr [])])
     (enforcer_init [Element ''main'' []]) =
   Inr \<lparr>document = [Element ''main'' [], Element ''prodblock-overlay'' []],
        shouldBeBlocked = True, mutationObserverActive = True\<rparr>"
proof -
  let ?msg = "JObj [(''type'', JStr ''STATE''), (''lockActive'', JBool True), (''allowedDomains'', JArr [])]"
  have a: "get_prop ?msg ''lockActive'' = Inr (JBool True)" by simp
  have b: "get_prop ?msg ''allowedDomains'' = Inr (JArr [])" by simp
  have made: "createOverlay [Element ''main'' []] = [Element ''main'' [], Element ''prodblock-overlay'' []]"
    by (simp add: createOverlay_def getOverlay_def OVERLAY_ID_def)
  from full_focus_blocks_every_host [OF a b, of "''mail.example.com''" "enforcer_init [Element ''main'' []]"]
  show ?thesis by (simp add: enforcer_init_def made)
qed

text \<open>
  C6. A state whose \<open>lockActive\<close> is false sets the target to Unblocked and removes the
  overlay, for every host name and whatever \<open>allowedDomains\<close> holds (the state is constrained
  in its \<open>lockActive\<close> only, and no throw of \<open>isAllowed\<close> can surface): nothing changes in
  a document without overlay, and the overlay is gone afterwards from a document that held
  at most one element with its id.
\<close>

theorem unlocked_unblocks:
  assumes "get_prop newState ''lockActive'' = Inr (JBool False)"
  shows "handleState hostname newState st =
           Inr (st\<lparr>shouldBeBlocked := False, document := removeOverlay (document st)\<rparr>) \<and>
         (getOverlay (document st) = None \<longrightarrow> removeOverlay (document st) = document st) \<and>
         (count_elements OVERLAY_ID (document st) \<le> 1 \<longrightarrow>
            getOverlay (removeOverlay (document st)) = None)"
proof (intro conjI impI)
  show "handleState hostname newState st =
          Inr (st\<lparr>shouldBeBlocked := False, document := removeOverlay (document st)\<rparr>)"
    using assms by (simp add: handleState_unlocked)
  show "removeOverlay (document st) = document st" if "getOverlay (document st) = None"
    using that by (simp add: removeOverlay_def)
  show "getOverlay (removeOverlay (document st)) = None"
    if "count_elements OVERLAY_ID (document st) \<le> 1"
    using that by (rule getOverlay_removeOverlay)
qed

theorem unlocked_unblocks_witness:
  "handleState ''news.example.org''
     (JObj [(''type'', JStr ''STATE''), (''lockActive'', JBool False), (''allowedDomains'', JNum 5)])
     \<lparr>document = [Element ''main'' [], Element ''prodblock-overlay'' []],
      shouldBeBlocked = True, mutationObserverActive = True\<rparr> =
   Inr \<lparr>document = [Element ''main'' []], shouldBeBlocked = False, mutationObserverActive = True\<rparr> \<and>
   isAllowed ''news.example.org'' (JNum 5) = Inl TypeError \<and>
   count_elements OVERLAY_ID [Element ''main'' [], Element ''prodblock-overlay'' []] \<le> 1 \<and>
   getOverlay [Element ''main'' []] = None"
proof -
  let ?msg = "JObj [(''type'', JStr ''STATE''), (''lockActive'', JBool False), (''allowedDomains'', JNum 5)]"
  let ?st = "\<lparr>document = [Element ''main'' [], Element ''prodblock-overlay'' []],
      shouldBeBlocked = True, mutationObserverActive = True\<rparr>"
  have a: "get_prop ?msg ''lockActive'' = Inr (JBool False)" by simp
  have gone: "removeOverlay [Element ''main'' [], Element ''prodblock-overlay'' []] = [Element ''main'' []]"
    by (simp add: removeOverlay_def getOverlay_def OVERLAY_ID_def)
  have few: "count_elements OVERLAY_ID (document ?st) \<le> 1"
    by (simp add: OVERLAY_ID_def)
  from unlocked_unblocks [OF a, of "''news.example.org''" ?st] few
  show ?thesis by (simp add: gone)
qed

text \<open>
  C10. A state whose \<open>lockActive\<close> is truthy and whose \<open>allowedDomains\<close> is absent,
  \<open>undefined\<close> or \<open>null\<close> is handled as full focus: \<open>newState.allowedDomains || []\<close> puts the
  empty list in its place, so the target is Blocked and the overlay is created for every
  host name; no error is raised.
\<close>

theorem missing_list_is_full_focus:
  assumes "get_prop newState ''lockActive'' = Inr lockActive" and "truthy lockActive"
    and "get_prop newState ''allowedDomains'' = Inr JUndefined \<or>
         get_prop newState ''allowedDomains'' = Inr JNull"
  shows "handleState hostname newState st =
           Inr (st\<lparr>shouldBeBlocked := True, document := createOverlay (document st),
                   mutationObserverActive := True\<rparr>) \<and>
         getOverlay (createOverlay (document st)) \<noteq> None"
proof -
  from assms(3) obtain v where v: "get_prop newState ''allowedDomains'' = Inr v" "\<not> truthy v"
    by auto
  from handleState_full_focus [OF assms(1,2) v(1)] v(2) show ?thesis
    by (simp add: getOverlay_createOverlay)
qed

theorem missing_list_is_full_focus_witness:
  "handleState ''docs.example.com'' (JObj [(''type'', JStr ''STATE''), (''lockActive'', JNum 1)])
     (enforcer_init []) =
   Inr \<lparr>document = [Element ''prodblock-overlay'' []], shouldBeBlocked = True,
        mutationObserverActive = True\<rparr>"
proof -
  let ?msg = "JObj [(''type'', JStr ''STATE''), (''lockActive'', JNum 1)]"
  have a: "get_prop ?msg ''lockActive'' = Inr (JNum 1)" by simp
  have t: "truthy (JNum 1)" by simp
  have b: "get_prop ?msg ''allowedDomains'' = Inr JUndefined \<or>
           get_prop ?msg ''allowedDomains'' = Inr JNull" by simp
  have made: "createOverlay [] = [Element ''prodblock-overlay'' []]"
    by (simp add: createOverlay_def getOverlay_def OVERLAY_ID_def)
  from missing_list_is_full_focus [OF a t b, of "''docs.example.com''" "enforcer_init []"]
  show ?thesis by (simp add: enforcer_init_def made)
qed

lemma endsWith_suffix: "endsWith s t = suffix t s"
proof
  assume "endsWith s t"
  then have "s = take (length s - length t) s @ t"
    by (metis append_take_drop_id endsWith_def)
  then show "suffix t s" by (rule suffixI)
next
  assume "suffix t s"
  then obtain zs where "s = zs @ t" by (auto simp: suffix_def)
  then show "endsWith s t" by (simp add: endsWith_def)
qed

text \<open>
  C1, as amended. For every host name \<open>h\<close> and every list of one domain \<open>d\<close>,
  \<open>isAllowed\<close> returns true if and only if the trimmed, lower-cased \<open>d\<close> is not empty and the
  host name, without a leading \<open>www.\<close> and lower-cased, equals it or ends with a dot followed
  by it. It never throws on such a list.
\<close>

theorem isAllowed_single_domain:
  "isAllowed h (JArr [JStr d]) = Inr (toLowerCase (trim d) \<noteq> [] \<and> spec_isExempt h d)"
  by (simp add: spec_isExempt_def Let_def endsWith_suffix)

theorem isAllowed_single_domain_witness:
  "isAllowed ''www.Example.com'' (JArr [JStr ''example.com'']) = Inr True \<and>
   isAllowed ''notexample.com'' (JArr [JStr ''example.com'']) = Inr False \<and>
   isAllowed ''sub.example.com'' (JArr [JStr ''example.com'']) = Inr True"
proof -
  have a: "(toLowerCase (trim ''example.com'') \<noteq> [] \<and> spec_isExempt ''www.Example.com'' ''example.com'') = True"
    by code_simp
  have b: "(toLowerCase (trim ''example.com'') \<noteq> [] \<and> spec_isExempt ''notexample.com'' ''example.com'') = False"
    by code_simp
  have c: "(toLowerCase (trim ''example.com'') \<noteq> [] \<and> spec_isExempt ''sub.example.com'' ''example.com'') = True"
    by code_simp
  show ?thesis
    using isAllowed_single_domain [of "''www.Example.com''" "''example.com''"]
      isAllowed_single_domain [of "''notexample.com''" "''example.com''"]
      isAllowed_single_domain [of "''sub.example.com''" "''example.com''"]
    unfolding a b c by simp
qed

text \<open>
  C1 as stated fails on an entry that is empty after trimming: every host name with a
  trailing dot ends with \<open>"." + ""\<close>, yet the guard \<open>if (!domain) return false\<close> skips the
  entry.
\<close>

theorem isAllowed_empty_domain_counterexample:
  "spec_isExempt ''example.com.'' '''' \<and>
   isAllowed ''example.com.'' (JArr [JStr '''']) = Inr False"
  by code_simp




subsection \<open>The Relay\<close>

lemma scheduleReconnect_pending:
  "timer_truthy (reconnectTimeout st) \<Longrightarrow> scheduleReconnect st = st"
  by (simp add: scheduleReconnect_def)

lemma relay_start_inv: "relay_inv (relay_start throws)"
  by (simp add: relay_inv_def relay_start_def connect_def relay_init_def scheduleReconnect_def
      timer_truthy_def Let_def)

lemma ws_onmessage_inv:
  "relay_inv st \<Longrightarrow> sockets st \<noteq> [] \<Longrightarrow> relay_inv (ws_onmessage outcome st)"
  by (cases outcome)
     (auto simp: relay_inv_def ws_onmessage_def broadcastState_def split: option.splits)

lemma ws_onclose_inv:
  assumes "relay_inv st" and "s \<in> set (sockets st)"
  shows "relay_inv (ws_onclose (st\<lparr>sockets := removeAll s (sockets st)\<rparr>))"
proof -
  from assms have one: "sockets st = [s]" and none: "timers st = []"
    by (cases "sockets st"; cases "timers st"; auto simp: relay_inv_def)+
  from none assms(1) have "reconnectTimeout st = None"
    by (cases "reconnectTimeout st") (auto simp: relay_inv_def)
  then show ?thesis using one none
    by (simp add: relay_inv_def ws_onclose_def scheduleReconnect_def broadcastState_def
        timer_truthy_def Let_def)
qed

lemma reconnect_callback_inv:
  assumes "relay_inv st" and "t \<in> set (timers st)"
  shows "relay_inv (reconnect_callback throws (st\<lparr>timers := removeAll t (timers st)\<rparr>))"
proof -
  from assms have one: "timers st = [t]" and none: "sockets st = []"
    by (cases "sockets st"; cases "timers st"; auto simp: relay_inv_def)+
  from none assms(1) have "state st = safe_default" by (simp add: relay_inv_def)
  then show ?thesis using one none
    by (simp add: relay_inv_def reconnect_callback_def connect_def scheduleReconnect_def
        timer_truthy_def Let_def)
qed

lemma tabs_callback_inv:
  "relay_inv st \<Longrightarrow> relay_inv (tabs_callback tabs (st\<lparr>queries := n\<rparr>))"
  by (auto simp: relay_inv_def tabs_callback_def split: option.splits)

lemma relay_step_inv:
  assumes "relay_inv st" and "relay_step ev st = Some st'"
  shows "relay_inv st'"
proof (cases ev)
  case (SocketOpen s)
  then show ?thesis using assms by (auto split: if_splits)
next
  case (SocketMessage s outcome)
  then have "sockets st \<noteq> []" and "st' = ws_onmessage outcome st"
    using assms(2) by (auto split: if_splits)
  then show ?thesis using assms(1) by (simp add: ws_onmessage_inv)
next
  case (SocketError s)
  then show ?thesis using assms by (auto split: if_splits)
next
  case (SocketClose s)
  then show ?thesis using assms ws_onclose_inv [of st s] by (auto split: if_splits)
next
  case (TimerFires t throws)
  then show ?thesis using assms reconnect_callback_inv [of st t throws]
    by (auto split: if_splits)
next
  case (TabsQueryDone tabs)
  then show ?thesis using assms tabs_callback_inv [of st tabs]
    by (auto split: if_splits)
qed

lemma relay_run_inv:
  "relay_inv st \<Longrightarrow> relay_run evs st = Some st' \<Longrightarrow> relay_inv st'"
  by (induction evs arbitrary: st) (auto split: option.splits dest: relay_step_inv)

lemma ws_onclose_tracked:
  "timers_tracked st \<Longrightarrow>
     timers_tracked (ws_onclose st) \<and> length (timers (ws_onclose st)) = 1"
  by (cases "reconnectTimeout st")
     (auto simp: timers_tracked_def ws_onclose_def scheduleReconnect_def broadcastState_def
       timer_truthy_def Let_def)

lemma disconnects_tracked:
  "timers_tracked st \<Longrightarrow>
     timers_tracked ((ws_onclose ^^ n) st) \<and> length (timers ((ws_onclose ^^ n) st)) \<le> 1"
proof (induction n)
  case 0
  then show ?case by (cases "reconnectTimeout st") (auto simp: timers_tracked_def)
next
  case (Suc n)
  with ws_onclose_tracked [of "(ws_onclose ^^ n) st"] show ?case by simp
qed

lemma relay_inv_bound:
  "relay_inv st \<Longrightarrow> length (sockets st) + length (timers st) \<le> 1"
  unfolding relay_inv_def by blast

lemma relay_inv_default:
  "relay_inv st \<Longrightarrow> sockets st = [] \<Longrightarrow> state st = safe_default"
  unfolding relay_inv_def by blast

text \<open>
  C9. Reconnect singularity. \<open>scheduleReconnect\<close> does nothing while \<open>reconnectTimeout\<close> holds
  a timer. So after any number of consecutive close events, from a state whose pending
  timers are the one that \<open>reconnectTimeout\<close> names, at most one reconnect timer is pending;
  and at most one is pending in every state that the service worker reaches from its start.
\<close>

theorem reconnect_singularity:
  "(timer_truthy (reconnectTimeout st) \<longrightarrow> scheduleReconnect st = st) \<and>
   (timers_tracked st \<longrightarrow> length (timers ((ws_onclose ^^ n) st)) \<le> 1) \<and>
   (relay_run evs (relay_start throws) = Some st' \<longrightarrow> length (timers st') \<le> 1)"
proof (intro conjI impI)
  show "scheduleReconnect st = st" if "timer_truthy (reconnectTimeout st)"
    using that by (rule scheduleReconnect_pending)
  show "length (timers ((ws_onclose ^^ n) st)) \<le> 1" if "timers_tracked st"
    using disconnects_tracked [OF that, of n] by simp
  show "length (timers st') \<le> 1" if "relay_run evs (relay_start throws) = Some st'"
    using relay_inv_bound [OF relay_run_inv [OF relay_start_inv that]] by simp
qed

theorem reconnect_singularity_witness:
  "timers_tracked (relay_start False) \<and>
   timers (ws_onclose (relay_start False)) = [2] \<and>
   scheduleReconnect (ws_onclose (relay_start False)) = ws_onclose (relay_start False) \<and>
   length (timers ((ws_onclose ^^ 2) (relay_start False))) \<le> 1 \<and>
   relay_run [SocketClose 1] (relay_start False) =
     Some \<lparr>ws = Some 1, state = safe_default, reconnectTimeout = Some 2, sockets = [],
           timers = [2], queries = 1, next_id = 2,
           effects = [NewWebSocket 1, TabsQuery, SetTimeout 2]\<rparr> \<and>
   length (timers \<lparr>ws = Some 1, state = safe_default, reconnectTimeout = Some 2, sockets = [],
           timers = [2], queries = 1, next_id = 2,
           effects = [NewWebSocket 1, TabsQuery, SetTimeout 2]\<rparr>) \<le> 1"
proof -
  let ?end = "\<lparr>ws = Some 1, state = safe_default, reconnectTimeout = Some 2, sockets = [],
           timers = [2], queries = 1, next_id = 2,
           effects = [NewWebSocket 1, TabsQuery, SetTimeout 2]\<rparr>"
  have tr: "timers_tracked (relay_start False)"
    by (simp add: timers_tracked_def relay_start_def connect_def relay_init_def)
  have once: "timers (ws_onclose (relay_start False)) = [2]"
    by (simp add: relay_start_def connect_def relay_init_def ws_onclose_def
        scheduleReconnect_def broadcastState_def timer_truthy_def Let_def)
  have pending: "timer_truthy (reconnectTimeout (ws_onclose (relay_start False)))"
    by (simp add: relay_start_def connect_def relay_init_def ws_onclose_def
        scheduleReconnect_def broadcastState_def timer_truthy_def Let_def)
  have run: "relay_run [SocketClose 1] (relay_start False) = Some ?end"
    by (simp add: relay_start_def connect_def relay_init_def ws_onclose_def
        scheduleReconnect_def broadcastState_def timer_truthy_def Let_def)
  from reconnect_singularity [of "ws_onclose (relay_start False)"] pending
  have noop: "scheduleReconnect (ws_onclose (relay_start False)) = ws_onclose (relay_start False)"
    by blast
  from reconnect_singularity [of "relay_start False" 2] tr
  have twice: "length (timers ((ws_onclose ^^ 2) (relay_start False))) \<le> 1"
    by blast
  have reached: "length (timers ?end) \<le> 1"
    by (rule reconnect_singularity
        [where evs = "[SocketClose 1]" and throws = False and st' = ?end,
          THEN conjunct2, THEN conjunct2, THEN mp, OF run])
  show ?thesis by (intro conjI tr once noop twice run reached)
qed

text \<open>
  C4 as stated fails: \<open>connect\<close> has no test for an existing socket. Called while the
  connection opened at start-up is alive, it opens a second one.
\<close>

theorem connect_not_idempotent_counterexample:
  "sockets (relay_start False) = [1] \<and>
   sockets (connect False (relay_start False)) = [1, 2] \<and>
   connect False (relay_start False) \<noteq> relay_start False"
  by (simp add: relay_start_def connect_def relay_init_def)

text \<open>
  C4, as amended. \<open>connect\<close> cancels a pending reconnect timer before it opens a
  connection, and it opens a new connection on every call in which the constructor does not
  throw (none when it throws). The script calls it at start-up and from the reconnect timer
  only, and a timer is pending only while no socket is alive: in every state that the
  service worker reaches from its start there is at most one socket or pending timer, so at
  most one live connection.
\<close>

theorem connect_cancels_timer_and_opens:
  "(reconnectTimeout st = Some t \<and> t \<noteq> 0 \<longrightarrow>
      reconnectTimeout (connect False st) = None \<and>
      t \<notin> set (timers (connect False st)) \<and>
      effects (connect False st) =
        effects st @ [ClearTimeout t, NewWebSocket (Suc (next_id st))]) \<and>
   sockets (connect False st) = sockets st @ [Suc (next_id st)] \<and>
   sockets (connect True st) = sockets st \<and>
   (relay_run evs (relay_start throws) = Some st' \<longrightarrow>
      length (sockets st') + length (timers st') \<le> 1)"
proof (intro conjI impI)
  show "sockets (connect False st) = sockets st @ [Suc (next_id st)]"
    by (simp add: connect_def Let_def split: option.splits)
  show "sockets (connect True st) = sockets st"
    by (simp add: connect_def scheduleReconnect_def Let_def split: option.splits)
  show "length (sockets st') + length (timers st') \<le> 1"
    if "relay_run evs (relay_start throws) = Some st'"
    using relay_run_inv [OF relay_start_inv that] by (rule relay_inv_bound)
next
  assume h: "reconnectTimeout st = Some t \<and> t \<noteq> 0"
  then show "reconnectTimeout (connect False st) = None"
    by (simp add: connect_def Let_def)
  from h show "t \<notin> set (timers (connect False st))"
    by (simp add: connect_def Let_def)
  from h show "effects (connect False st) =
      effects st @ [ClearTimeout t, NewWebSocket (Suc (next_id st))]"
    by (simp add: connect_def Let_def)
qed

theorem connect_cancels_timer_and_opens_witness:
  "relay_run [SocketClose 1, TimerFires 2 False] (relay_start False) =
     Some \<lparr>ws = Some 3, state = safe_default, reconnectTimeout = None, sockets = [3],
           timers = [], queries = 1, next_id = 3,
           effects = [NewWebSocket 1, TabsQuery, SetTimeout 2, NewWebSocket 3]\<rparr> \<and>
   length (sockets \<lparr>ws = Some 3, state = safe_default, reconnectTimeout = None, sockets = [3],
           timers = [], queries = 1, next_id = 3,
           effects = [NewWebSocket 1, TabsQuery, SetTimeout 2, NewWebSocket 3]\<rparr>) +
   length (timers \<lparr>ws = Some 3, state = safe_default, reconnectTimeout = None, sockets = [3],
           timers = [], queries = 1, next_id = 3,
           effects = [NewWebSocket 1, TabsQuery, SetTimeout 2, NewWebSocket 3]\<rparr>) \<le> 1 \<and>
   reconnectTimeout (connect False (ws_onclose relay_init)) = None \<and>
   effects (connect False (ws_onclose relay_init)) =
     [TabsQuery, SetTimeout 1, ClearTimeout 1, NewWebSocket 2]"
proof -
  let ?end = "\<lparr>ws = Some 3, state = safe_default, reconnectTimeout = None, sockets = [3],
           timers = [], queries = 1, next_id = 3,
           effects = [NewWebSocket 1, TabsQuery, SetTimeout 2, NewWebSocket 3]\<rparr>"
  have run: "relay_run [SocketClose 1, TimerFires 2 False] (relay_start False) = Some ?end"
    by (simp add: relay_start_def connect_def relay_init_def ws_onclose_def
        scheduleReconnect_def broadcastState_def timer_truthy_def reconnect_callback_def Let_def)
  have pend: "reconnectTimeout (ws_onclose relay_init) = Some 1 \<and> (1::nat) \<noteq> 0"
    by (simp add: relay_init_def ws_onclose_def
        scheduleReconnect_def broadcastState_def timer_truthy_def Let_def)
  have eff: "effects (ws_onclose relay_init) = [TabsQuery, SetTimeout 1]"
       "next_id (ws_onclose relay_init) = 1"
    by (simp_all add: relay_init_def ws_onclose_def
        scheduleReconnect_def broadcastState_def timer_truthy_def Let_def)
  from connect_cancels_timer_and_opens
    [of "ws_onclose relay_init" 1 "[SocketClose 1, TimerFires 2 False]" False ?end] run pend eff
  show ?thesis by simp
qed

text \<open>
  C3 as stated fails: the handler tests no shape. The text \<open>null\<close> parses to \<open>null\<close>,
  which is not a lock state, and replaces the cached state; a broadcast is requested.
\<close>

theorem ws_onmessage_any_shape_counterexample:
  "\<not> is_LockState JNull \<and>
   state (relay_start False) = safe_default \<and>
   state (ws_onmessage (Parsed JNull) (relay_start False)) = JNull \<and>
   effects (ws_onmessage (Parsed JNull) (relay_start False)) = [NewWebSocket 1, TabsQuery]"
  by (simp add: ws_onmessage_def broadcastState_def relay_start_def connect_def relay_init_def)

text \<open>
  C3, as amended. A message that fails to parse leaves the service worker as it was: the
  cached state is unchanged and no broadcast is requested. A message that parses, whatever
  its shape, replaces the cached state and is broadcast: the tabs are queried, and the
  answer sends the new state to every tab with an id.
\<close>

theorem ws_onmessage_replaces_state:
  "ws_onmessage SyntaxError st = st \<and>
   state (ws_onmessage (Parsed newState) st) = newState \<and>
   effects (ws_onmessage (Parsed newState) st) = effects st @ [TabsQuery] \<and>
   queries (ws_onmessage (Parsed newState) st) = Suc (queries st) \<and>
   effects (tabs_callback tabs (ws_onmessage (Parsed newState) st)) =
     effects st @ TabsQuery # send_to_tabs (broadcast_message newState) tabs"
  by (simp add: ws_onmessage_def broadcastState_def tabs_callback_def)

theorem ws_onmessage_replaces_state_witness:
  "ws_onmessage SyntaxError (relay_start False) = relay_start False \<and>
   state (ws_onmessage
     (Parsed (JObj [(''lockActive'', JBool True), (''allowedDomains'', JArr [JStr ''example.com''])]))
     (relay_start False)) =
     JObj [(''lockActive'', JBool True), (''allowedDomains'', JArr [JStr ''example.com''])]"
  using ws_onmessage_replaces_state [of "relay_start False"
      "JObj [(''lockActive'', JBool True), (''allowedDomains'', JArr [JStr ''example.com''])]"]
  by simp

lemma broadcast_message_safe_default:
  "broadcast_message safe_default =
     JObj [(''type'', JStr ''STATE''), (''lockActive'', JBool False), (''allowedDomains'', JArr [])]"
  by (simp add: broadcast_message_def safe_default_def)

lemma enforcer_receives_safe_default:
  "enforcer_step hostname (Message (broadcast_message safe_default)) c =
     c\<lparr>script := (script c)\<lparr>shouldBeBlocked := False,
                             document := removeOverlay (document (script c))\<rparr>\<rparr>"
proof -
  let ?msg = "broadcast_message safe_default"
  have "get_prop ?msg ''lockActive'' = Inr (JBool False)"
    by (simp add: broadcast_message_safe_default)
  then have "handleState hostname ?msg (script c) =
      Inr ((script c)\<lparr>shouldBeBlocked := False,
                        document := removeOverlay (document (script c))\<rparr>)"
    by (simp add: handleState_unlocked)
  moreover have "get_prop ?msg ''type'' = Inr (JStr ''STATE'')"
    by (simp add: broadcast_message_safe_default)
  ultimately show ?thesis
    by (simp add: deliver_def run_observer_def observer_callback_def)
qed

lemma send_to_tabs_eq:
  "send_to_tabs msg tabs =
     map (\<lambda>i. SendMessage i msg) (filter (\<lambda>i. i \<noteq> 0) (List.map_filter (\<lambda>t. t) tabs))"
  by (induction msg tabs rule: send_to_tabs.induct) (simp_all add: List.map_filter_simps)

text \<open>
  C2 as stated fails in its last part. The messages of a broadcast are sent by the answer to
  the tabs query, with the state cached at that moment, and nothing orders that answer
  before the reconnect. In this run the connection closes while the lock is active, the
  reconnect timer fires, the new connection opens and delivers the lock again, and only then
  the three tabs queries answer: the new socket is created before any message is sent, no
  message carries the safe default, and an Enforcer that receives the broadcast keeps its
  overlay.
\<close>

theorem disconnect_broadcast_after_reconnect_counterexample:
  "relay_run
     [SocketMessage 1 (Parsed (JObj [(''lockActive'', JBool True), (''allowedDomains'', JArr [])])),
      SocketClose 1, TimerFires 2 False, SocketOpen 3,
      SocketMessage 3 (Parsed (JObj [(''lockActive'', JBool True), (''allowedDomains'', JArr [])])),
      TabsQueryDone [Some 7], TabsQueryDone [Some 7], TabsQueryDone [Some 7]]
     (relay_start False) =
   Some \<lparr>ws = Some 3,
         state = JObj [(''lockActive'', JBool True), (''allowedDomains'', JArr [])],
         reconnectTimeout = None, sockets = [3], timers = [], queries = 0, next_id = 3,
         effects =
           [NewWebSocket 1, TabsQuery, TabsQuery, SetTimeout 2, NewWebSocket 3, TabsQuery,
            SendMessage 7 (JObj [(''type'', JStr ''STATE''), (''lockActive'', JBool True),
                                 (''allowedDomains'', JArr [])]),
            SendMessage 7 (JObj [(''type'', JStr ''STATE''), (''lockActive'', JBool True),
                                 (''allowedDomains'', JArr [])]),
            SendMessage 7 (JObj [(''type'', JStr ''STATE''), (''lockActive'', JBool True),
                                 (''allowedDomains'', JArr [])])]\<rparr> \<and>
   enforcer_step ''news.example.org''
     (Message (JObj [(''type'', JStr ''STATE''), (''lockActive'', JBool True),
                     (''allowedDomains'', JArr [])]))
     \<lparr>script = \<lparr>document = [Element ''main'' [], Element ''prodblock-overlay'' []],
                shouldBeBlocked = True, mutationObserverActive = True\<rparr>,
      rootObserved = True\<rparr> =
   \<lparr>script = \<lparr>document = [Element ''main'' [], Element ''prodblock-overlay'' []],
              shouldBeBlocked = True, mutationObserverActive = True\<rparr>,
    rootObserved = True\<rparr>"
  by (simp add: relay_start_def connect_def relay_init_def ws_onmessage_def ws_onclose_def
      broadcastState_def scheduleReconnect_def reconnect_callback_def tabs_callback_def
      broadcast_message_def timer_truthy_def safe_default_def Let_def
      deliver_def handleState_def run_observer_def setupMutationObserver_def
      createOverlay_def getOverlay_def OVERLAY_ID_def)

text \<open>
  C2, as amended. The close handler sets the cached state to the safe default, then asks
  for the broadcast, then schedules the reconnect (unless one is pending); it opens no
  connection itself, and a reconnect timer is pending afterwards. The answer to a tabs
  query sends one message to every tab with an id, built from the state cached when the
  answer comes. In every state the service worker reaches from its start, that state is the
  safe default as long as no socket exists, that is until the reconnect has opened one: an
  answer that comes before sends the safe default. An Enforcer that receives the safe
  default sets its target to Unblocked and removes its overlay, which is gone from a
  document that held at most one element with its id.
\<close>

theorem disconnect_fails_open:
  "state (ws_onclose st) = safe_default \<and>
   effects (ws_onclose st) =
     effects st @ TabsQuery #
       (if timer_truthy (reconnectTimeout st) then [] else [SetTimeout (Suc (next_id st))]) \<and>
   timer_truthy (reconnectTimeout (ws_onclose st)) \<and>
   sockets (ws_onclose st) = sockets st \<and>
   effects (tabs_callback tabs st) =
     effects st @
       map (\<lambda>i. SendMessage i (broadcast_message (state st)))
         (filter (\<lambda>i. i \<noteq> 0) (List.map_filter (\<lambda>t. t) tabs)) \<and>
   (relay_run evs (relay_start throws) = Some st' \<and> sockets st' = [] \<longrightarrow>
      state st' = safe_default \<and>
      effects (tabs_callback tabs st') =
        effects st' @
          map (\<lambda>i. SendMessage i (broadcast_message safe_default))
            (filter (\<lambda>i. i \<noteq> 0) (List.map_filter (\<lambda>t. t) tabs))) \<and>
   enforcer_step hostname (Message (broadcast_message safe_default)) c =
     c\<lparr>script := (script c)\<lparr>shouldBeBlocked := False,
                             document := removeOverlay (document (script c))\<rparr>\<rparr> \<and>
   (count_elements OVERLAY_ID (document (script c)) \<le> 1 \<longrightarrow>
      getOverlay (removeOverlay (document (script c))) = None)"
proof (intro conjI impI)
  show "state (ws_onclose st) = safe_default"
    by (simp add: ws_onclose_def scheduleReconnect_def broadcastState_def Let_def)
  show "effects (ws_onclose st) = effects st @ TabsQuery #
       (if timer_truthy (reconnectTimeout st) then [] else [SetTimeout (Suc (next_id st))])"
    by (simp add: ws_onclose_def scheduleReconnect_def broadcastState_def Let_def)
  show "timer_truthy (reconnectTimeout (ws_onclose st))"
    by (simp add: ws_onclose_def scheduleReconnect_def broadcastState_def Let_def
        timer_truthy_def)
  show "sockets (ws_onclose st) = sockets st"
    by (simp add: ws_onclose_def scheduleReconnect_def broadcastState_def Let_def)
  show "effects (tabs_callback tabs st) = effects st @
       map (\<lambda>i. SendMessage i (broadcast_message (state st)))
         (filter (\<lambda>i. i \<noteq> 0) (List.map_filter (\<lambda>t. t) tabs))"
    by (simp add: tabs_callback_def send_to_tabs_eq)
  show "enforcer_step hostname (Message (broadcast_message safe_default)) c =
     c\<lparr>script := (script c)\<lparr>shouldBeBlocked := False,
                             document := removeOverlay (document (script c))\<rparr>\<rparr>"
    by (rule enforcer_receives_safe_default)
  show "getOverlay (removeOverlay (document (script c))) = None"
    if "count_elements OVERLAY_ID (document (script c)) \<le> 1"
    using that by (rule getOverlay_removeOverlay)
next
  assume run: "relay_run evs (relay_start throws) = Some st' \<and> sockets st' = []"
  then have "relay_inv st'"
    using relay_run_inv [OF relay_start_inv, of evs throws st'] by simp
  with run show default: "state st' = safe_default"
    by (simp add: relay_inv_default)
  show "effects (tabs_callback tabs st') = effects st' @
          map (\<lambda>i. SendMessage i (broadcast_message safe_default))
            (filter (\<lambda>i. i \<noteq> 0) (List.map_filter (\<lambda>t. t) tabs))"
    by (simp add: tabs_callback_def send_to_tabs_eq default)
qed

theorem disconnect_fails_open_witness:
  "state (ws_onclose (ws_onmessage (Parsed (JObj [(''lockActive'', JBool True)])) (relay_start False))) =
     safe_default \<and>
   effects (tabs_callback [Some 7, None, Some 0]
       (ws_onclose (ws_onmessage (Parsed (JObj [(''lockActive'', JBool True)])) (relay_start False)))) =
     [NewWebSocket 1, TabsQuery, TabsQuery, SetTimeout 2,
      SendMessage 7 (JObj [(''type'', JStr ''STATE''), (''lockActive'', JBool False),
                           (''allowedDomains'', JArr [])])] \<and>
   enforcer_step ''news.example.org'' (Message (broadcast_message safe_default))
     \<lparr>script = \<lparr>document = [Element ''main'' [], Element ''prodblock-overlay'' []],
                shouldBeBlocked = True, mutationObserverActive = True\<rparr>,
      rootObserved = True\<rparr> =
   \<lparr>script = \<lparr>document = [Element ''main'' []], shouldBeBlocked = False,
              mutationObserverActive = True\<rparr>,
    rootObserved = True\<rparr> \<and>
   getOverlay [Element ''main'' []] = None \<and>
   relay_run [SocketMessage 1 (Parsed (JObj [(''lockActive'', JBool True)])), SocketClose 1]
       (relay_start False) =
     Some \<lparr>ws = Some 1, state = safe_default, reconnectTimeout = Some 2, sockets = [],
           timers = [2], queries = 2, next_id = 2,
           effects = [NewWebSocket 1, TabsQuery, TabsQuery, SetTimeout 2]\<rparr>"
proof -
  let ?locked = "Parsed (JObj [(''lockActive'', JBool True)])"
  let ?st = "ws_onmessage ?locked (relay_start False)"
  let ?e = "\<lparr>document = [Element ''main'' [], Element ''prodblock-overlay'' []],
      shouldBeBlocked = True, mutationObserverActive = True\<rparr>"
  let ?c = "\<lparr>script = ?e, rootObserved = True\<rparr>"
  let ?end = "ws_onclose (?st\<lparr>sockets := []\<rparr>)"
  have before: "effects ?st = [NewWebSocket 1, TabsQuery]" "reconnectTimeout ?st = None"
      "next_id ?st = 1"
    by (simp_all add: ws_onmessage_def broadcastState_def relay_start_def connect_def
        relay_init_def)
  have gone: "removeOverlay [Element ''main'' [], Element ''prodblock-overlay'' []] =
      [Element ''main'' []]"
    by (simp add: removeOverlay_def getOverlay_def OVERLAY_ID_def)
  have few: "count_elements OVERLAY_ID (document (script ?c)) \<le> 1"
    by (simp add: OVERLAY_ID_def)
  have run: "relay_run [SocketMessage 1 ?locked, SocketClose 1] (relay_start False) = Some ?end"
    by (simp add: relay_start_def connect_def relay_init_def ws_onmessage_def broadcastState_def)
  have none: "sockets ?end = []"
    by (simp add: ws_onclose_def scheduleReconnect_def broadcastState_def Let_def)
  have final: "?end = \<lparr>ws = Some 1, state = state ?end, reconnectTimeout = Some 2, sockets = [],
           timers = [2], queries = 2, next_id = 2,
           effects = [NewWebSocket 1, TabsQuery, TabsQuery, SetTimeout 2]\<rparr>"
    by (simp add: relay_start_def connect_def relay_init_def ws_onmessage_def broadcastState_def
        ws_onclose_def scheduleReconnect_def timer_truthy_def Let_def)
  note all = disconnect_fails_open
    [where st = ?st and hostname = "''news.example.org''" and c = ?c
      and evs = "[SocketMessage 1 ?locked, SocketClose 1]" and throws = False and st' = ?end]
  note later = disconnect_fails_open
    [where st = "ws_onclose ?st" and tabs = "[Some 7, None, Some 0]"]
  note rest = all [THEN conjunct2, THEN conjunct2, THEN conjunct2, THEN conjunct2,
      THEN conjunct2]
  have reset: "state (ws_onclose ?st) = safe_default"
    by (rule all [THEN conjunct1])
  have asked: "effects (ws_onclose ?st) = [NewWebSocket 1, TabsQuery, TabsQuery, SetTimeout 2]"
    using all [THEN conjunct2, THEN conjunct1] by (simp add: before timer_truthy_def)
  have sent: "effects (tabs_callback [Some 7, None, Some 0] (ws_onclose ?st)) =
      [NewWebSocket 1, TabsQuery, TabsQuery, SetTimeout 2,
       SendMessage 7 (JObj [(''type'', JStr ''STATE''), (''lockActive'', JBool False),
                            (''allowedDomains'', JArr [])])]"
    using later [THEN conjunct2, THEN conjunct2, THEN conjunct2, THEN conjunct2, THEN conjunct1]
    by (simp add: asked reset broadcast_message_safe_default List.map_filter_simps)
  have received: "enforcer_step ''news.example.org'' (Message (broadcast_message safe_default)) ?c =
      \<lparr>script = \<lparr>document = [Element ''main'' []], shouldBeBlocked = False,
                 mutationObserverActive = True\<rparr>,
       rootObserved = True\<rparr>"
    using rest [THEN conjunct2, THEN conjunct1] by (simp add: gone)
  have removed: "getOverlay [Element ''main'' []] = None"
    using rest [THEN conjunct2, THEN conjunct2, THEN mp, OF few]
    by (simp add: gone)
  have kept: "state ?end = safe_default"
    by (rule rest [THEN conjunct1, THEN mp, OF conjI [OF run none], THEN conjunct1])
  have ended: "relay_run [SocketMessage 1 ?locked, SocketClose 1] (relay_start False) =
      Some \<lparr>ws = Some 1, state = safe_default, reconnectTimeout = Some 2, sockets = [],
           timers = [2], queries = 2, next_id = 2,
           effects = [NewWebSocket 1, TabsQuery, TabsQuery, SetTimeout 2]\<rparr>"
    using final unfolding run kept by simp
  show ?thesis by (intro conjI reset sent received removed ended)
qed

end
